theory Spec2Isabelle
  imports Complex_Main "HOL-Library.Char_ord" "HOL-Library.List_Lexorder"
begin

section \<open>NewsApp recommendation training: the data model\<close>

text \<open>
  A shallow embedding of \<^verbatim>\<open>ml_training/train_model.py\<close>. Firestore documents are
  records, Python dicts are association lists in insertion order, Python numbers that may be
  floats are idealised as \<^typ>\<open>real\<close> (no rounding), identifiers are \<^typ>\<open>string\<close>
  ordered lexicographically by character code, and every exception is a value of
  \<open>exn + 'a\<close>. What the script prints is kept as a list of messages, so that the stages
  a run went through can be read off its log.
\<close>

record interaction =
  user_id :: string
  article_id :: string
  click_count :: int
  time_spent :: real
  is_bookmarked :: bool
  category :: string

record bookmark =
  bm_user_id :: string
  bm_article_id :: string
  bm_category :: string

record preference =
  pref_user_id :: string
  category_scores :: "(string \<times> real) list"
  total_interactions :: int

datatype exn = IndexError | Raised string

type_synonym scores = "((string \<times> string) \<times> real) list"

subsection \<open>Python dicts\<close>

text \<open>\<^verbatim>\<open>d.get(k, default)\<close>\<close>

definition dict_get :: "('k \<times> 'v) list \<Rightarrow> 'k \<Rightarrow> 'v \<Rightarrow> 'v" where
  "dict_get d k dflt = (case map_of d k of None \<Rightarrow> dflt | Some v \<Rightarrow> v)"

text \<open>\<^verbatim>\<open>d[k] = v\<close>: an existing key keeps its position, a new key goes last.\<close>

fun dict_set :: "('k \<times> 'v) list \<Rightarrow> 'k \<Rightarrow> 'v \<Rightarrow> ('k \<times> 'v) list" where
  "dict_set [] k v = [(k, v)]"
| "dict_set (p # d) k v = (if fst p = k then (k, v) # d else p # dict_set d k v)"

section \<open>Data processing\<close>

subsection \<open>Score aggregation (\<^verbatim>\<open>build_interaction_matrix\<close>, the two loops)\<close>

text \<open>Score formula: clicks + bookmark*5 + reading\_time/30.\<close>

definition interaction_score :: "interaction \<Rightarrow> real" where
  "interaction_score i =
     real_of_int (click_count i) + (if is_bookmarked i then 5 else 0) + time_spent i / 30"

fun add_interactions :: "scores \<Rightarrow> interaction list \<Rightarrow> scores" where
  "add_interactions sc [] = sc"
| "add_interactions sc (i # rest) =
     (let score = interaction_score i;
          key = (user_id i, article_id i)
      in add_interactions (dict_set sc key (dict_get sc key 0 + score)) rest)"

fun add_bookmarks :: "scores \<Rightarrow> bookmark list \<Rightarrow> scores" where
  "add_bookmarks sc [] = sc"
| "add_bookmarks sc (b # rest) =
     (let key = (bm_user_id b, bm_article_id b)
      in add_bookmarks (dict_set sc key (dict_get sc key 0 + 5)) rest)"

definition build_scores :: "interaction list \<Rightarrow> bookmark list \<Rightarrow> scores" where
  "build_scores interactions bookmarks =
     add_bookmarks (add_interactions [] interactions) bookmarks"

subsection \<open>The interaction matrix (\<^verbatim>\<open>build_interaction_matrix\<close>, the pivot)\<close>

text \<open>
  A pandas \<^verbatim>\<open>DataFrame\<close> of numbers: row labels, column labels and the dense cell
  array, one inner list per row. Its \<^verbatim>\<open>shape\<close> is (number of rows, number of columns).
\<close>

record data_frame =
  df_values :: "real list list"
  df_index :: "string list"
  df_columns :: "string list"

definition shape :: "data_frame \<Rightarrow> int \<times> int" where
  "shape m = (int (length (df_index m)), int (length (df_columns m)))"

text \<open>
  \<^verbatim>\<open>pd.DataFrame([...]).pivot_table(index="user_id", columns="article_id",
  values="score", fill_value=0)\<close> on the rows of the score dict. The keys of a dict are
  unique, so every (user, article) group holds one score and its mean is that score; row and
  column labels are the distinct identifiers in sorted order; a pair with no row is filled
  with 0.
\<close>

definition pivot_table :: "scores \<Rightarrow> data_frame" where
  "pivot_table sc =
     (let idx = sort (remdups (map (\<lambda>(k, v). fst k) sc));
          cols = sort (remdups (map (\<lambda>(k, v). snd k) sc))
      in \<lparr>df_values = map (\<lambda>u. map (\<lambda>a. dict_get sc (u, a) 0) cols) idx,
          df_index = idx, df_columns = cols\<rparr>)"

text \<open>The lines the script prints, with the values they interpolate.\<close>

datatype msg =
    Banner | Title | Blank
  | Building_matrix | No_interaction_data | Matrix_shape "int \<times> int"
  | Training_svd int | Svd_trained real
  | Building_artifacts | Artifacts_built nat nat
  | Uploading string | Uploaded
  | Not_enough_users nat | Not_enough_interactions nat | Skipping
  | Failed_to_build_matrix | Training_complete string | Failed_to_upload
  | Training_failed exn

text \<open>
  \<^verbatim>\<open>build_interaction_matrix\<close>: \<open>None\<close> stands for the triple
  \<^verbatim>\<open>(None, None, None)\<close>.
\<close>

definition build_interaction_matrix ::
  "interaction list \<Rightarrow> bookmark list \<Rightarrow> (data_frame \<times> string list \<times> string list) option \<times> msg list" where
  "build_interaction_matrix interactions bookmarks =
     (let sc = build_scores interactions bookmarks
      in if sc = [] then (None, [Building_matrix, No_interaction_data])
         else let matrix = pivot_table sc
              in (Some (matrix, df_index matrix, df_columns matrix),
                  [Building_matrix, Matrix_shape (shape matrix)]))"

section \<open>Model training\<close>

definition N_COMPONENTS :: int where
  "N_COMPONENTS = 10"

text \<open>
  scikit-learn's \<^verbatim>\<open>TruncatedSVD(n_components, random_state=42)\<close> is a parameter of
  the model: given the cell array and the number of components it either raises or yields
  \<^verbatim>\<open>fit_transform(matrix.values)\<close>, \<^verbatim>\<open>components_.T\<close> and
  \<^verbatim>\<open>explained_variance_ratio_.sum()\<close>.
\<close>

type_synonym svd = "real list list \<Rightarrow> int \<Rightarrow> exn + (real list list \<times> real list list \<times> real)"

text \<open>Lines 244 to 246: ensure we don't have more components than features.\<close>

definition clamp_components :: "int \<Rightarrow> int \<times> int \<Rightarrow> int" where
  "clamp_components n_components shp =
     (let n = min n_components (min (fst shp) (snd shp) - 1)
      in if n < 1 then 1 else n)"

definition train_svd_model ::
  "svd \<Rightarrow> data_frame \<Rightarrow> int \<Rightarrow> (exn + (real list list \<times> real list list \<times> int)) \<times> msg list" where
  "train_svd_model svd_fit matrix n_components =
     (let n = clamp_components n_components (shape matrix)
      in case svd_fit (df_values matrix) n of
           Inl e \<Rightarrow> (Inl e, [Training_svd n_components])
         | Inr (user_factors, article_factors, explained_variance) \<Rightarrow>
             (Inr (user_factors, article_factors, n),
              [Training_svd n_components, Svd_trained explained_variance]))"

section \<open>Model export\<close>

record user_factor =
  userId :: string
  factors :: "real list"

record article_factor =
  articleId :: string
  article_factors_of :: "real list"

record category_weight =
  cw_category :: string
  weight :: real

record training_stats =
  totalUsers :: int
  totalArticles :: int
  totalInteractions :: int

record model_doc =
  version :: string
  createdAt :: string
  algorithmType :: string
  nComponents :: int
  trainingStats :: training_stats
  categoryWeights :: "category_weight list"
  userFactors :: "user_factor list"
  articleFactors :: "article_factor list"

text \<open>
  \<^verbatim>\<open>datetime.now()\<close> is a parameter: the two strings the script derives from it,
  \<^verbatim>\<open>strftime('%Y%m%d_%H%M%S')\<close> and \<^verbatim>\<open>isoformat()\<close>.
\<close>

record clock =
  stamp :: string
  iso :: string

text \<open>
  \<^verbatim>\<open>for i, x in enumerate(ids): out.append((x, rows[i]))\<close>, started at index \<open>i\<close>.
  Reading a row the factor array does not have raises \<^verbatim>\<open>IndexError\<close>.
\<close>

fun enumerate_rows :: "nat \<Rightarrow> string list \<Rightarrow> real list list \<Rightarrow> exn + (string \<times> real list) list" where
  "enumerate_rows i [] rows = Inr []"
| "enumerate_rows i (x # xs) rows =
     (if i < length rows
      then (case enumerate_rows (Suc i) xs rows of
              Inl e \<Rightarrow> Inl e
            | Inr out \<Rightarrow> Inr ((x, rows ! i) # out))
      else Inl IndexError)"

text \<open>Category weights from preferences: the inner and the outer loop.\<close>

fun add_category_scores :: "(string \<times> real) list \<Rightarrow> (string \<times> real) list \<Rightarrow> (string \<times> real) list" where
  "add_category_scores cw [] = cw"
| "add_category_scores cw ((c, score) # rest) =
     add_category_scores (dict_set cw c (dict_get cw c 0 + score)) rest"

fun accumulate_category_weights :: "(string \<times> real) list \<Rightarrow> preference list \<Rightarrow> (string \<times> real) list" where
  "accumulate_category_weights cw [] = cw"
| "accumulate_category_weights cw (pref # rest) =
     accumulate_category_weights (add_category_scores cw (category_scores pref)) rest"

text \<open>Normalize category weights (lines 296 to 299).\<close>

definition normalize_category_weights :: "(string \<times> real) list \<Rightarrow> (string \<times> real) list" where
  "normalize_category_weights cw =
     (if cw \<noteq> [] then
        (let max_weight = Max (set (map snd cw))
         in if max_weight > 0 then map (\<lambda>(k, v). (k, v / max_weight)) cw else cw)
      else cw)"

definition category_weights_list :: "preference list \<Rightarrow> category_weight list" where
  "category_weights_list preferences =
     map (\<lambda>(k, v). \<lparr>cw_category = k, weight = v\<rparr>)
       (normalize_category_weights (accumulate_category_weights [] preferences))"

definition build_model_artifacts ::
  "clock \<Rightarrow> string list \<Rightarrow> string list \<Rightarrow> real list list \<Rightarrow> real list list \<Rightarrow> int \<Rightarrow>
   preference list \<Rightarrow> (exn + (model_doc \<times> string)) \<times> msg list" where
  "build_model_artifacts now user_ids article_ids user_factors article_factors n_components preferences =
     (let version = ''v'' @ stamp now;
          created_at = iso now
      in case enumerate_rows 0 user_ids user_factors of
           Inl e \<Rightarrow> (Inl e, [Building_artifacts])
         | Inr urows \<Rightarrow>
        (case enumerate_rows 0 article_ids article_factors of
           Inl e \<Rightarrow> (Inl e, [Building_artifacts])
         | Inr arows \<Rightarrow>
             (let user_factors_list = map (\<lambda>(u, r). \<lparr>userId = u, factors = r\<rparr>) urows;
                  article_factors_list =
                    map (\<lambda>(a, r). \<lparr>articleId = a, article_factors_of = r\<rparr>) arows;
                  model_doc = \<lparr>version = version, createdAt = created_at,
                    algorithmType = ''collaborative_filtering_svd'',
                    nComponents = n_components,
                    trainingStats = \<lparr>totalUsers = int (length user_ids),
                      totalArticles = int (length article_ids),
                      totalInteractions = (\<Sum>uf\<leftarrow>user_factors. int (length uf))\<rparr>,
                    categoryWeights = category_weights_list preferences,
                    userFactors = user_factors_list,
                    articleFactors = article_factors_list\<rparr>
              in (Inr (model_doc, version),
                  [Building_artifacts,
                   Artifacts_built (length user_factors_list) (length article_factors_list)]))))"

text \<open>
  The Firestore client: the single slot \<^verbatim>\<open>ml_models/recommendation_model_v1\<close>,
  and whether \<^verbatim>\<open>doc_ref.set\<close> raises instead of writing.
\<close>

record db =
  stored :: "model_doc option"
  set_raises :: "exn option"

definition upload_model_to_firestore :: "db \<Rightarrow> model_doc \<Rightarrow> string \<Rightarrow> (exn + bool) \<times> db \<times> msg list" where
  "upload_model_to_firestore d doc ver =
     (case set_raises d of
        Some e \<Rightarrow> (Inl e, d, [Uploading ver])
      | None \<Rightarrow> (Inr True, d\<lparr>stored := Some doc\<rparr>, [Uploading ver, Uploaded]))"

section \<open>Main training pipeline\<close>

definition MIN_USERS :: nat where
  "MIN_USERS = 2"

definition MIN_INTERACTIONS :: nat where
  "MIN_INTERACTIONS = 3"

text \<open>
  What a run depends on besides the code: the outcome of \<^verbatim>\<open>init_firebase\<close> and the
  three fetches (the fetched lists, or the exception one of them raised), the
  decomposition, the clock and the store.
\<close>

record env =
  fetched :: "exn + (interaction list \<times> preference list \<times> bookmark list)"
  svd_fit :: svd
  now :: clock
  store :: db

text \<open>
  Lines 370 to 398 of \<^verbatim>\<open>main\<close>: from building the matrix to the upload. The result
  is the value returned or the exception raised, the store, and the lines printed.
\<close>

definition train_and_upload ::
  "env \<Rightarrow> interaction list \<Rightarrow> preference list \<Rightarrow> bookmark list \<Rightarrow> (exn + int) \<times> db \<times> msg list" where
  "train_and_upload ev interactions preferences bookmarks =
     (case build_interaction_matrix interactions bookmarks of
        (None, log1) \<Rightarrow> (Inr 1, store ev, log1 @ [Failed_to_build_matrix])
      | (Some (matrix, user_ids, article_ids), log1) \<Rightarrow>
     (case train_svd_model (svd_fit ev) matrix N_COMPONENTS of
        (Inl e, log2) \<Rightarrow> (Inl e, store ev, log1 @ log2)
      | (Inr (user_factors, article_factors, n_components), log2) \<Rightarrow>
     (case build_model_artifacts (now ev) user_ids article_ids user_factors article_factors
             n_components preferences of
        (Inl e, log3) \<Rightarrow> (Inl e, store ev, log1 @ log2 @ log3)
      | (Inr (doc, ver), log3) \<Rightarrow>
     (case upload_model_to_firestore (store ev) doc ver of
        (Inl e, d, log4) \<Rightarrow> (Inl e, d, log1 @ log2 @ log3 @ log4)
      | (Inr success, d, log4) \<Rightarrow>
          (if success
           then (Inr 0, d, log1 @ log2 @ log3 @ log4 @
                   [Blank, Banner, Training_complete ver, Banner])
           else (Inr 1, d, log1 @ log2 @ log3 @ log4 @ [Failed_to_upload]))))))"

text \<open>The body of the \<^verbatim>\<open>try\<close> block.\<close>

definition main_try :: "env \<Rightarrow> (exn + int) \<times> db \<times> msg list" where
  "main_try ev =
     (case fetched ev of
        Inl e \<Rightarrow> (Inl e, store ev, [])
      | Inr (interactions, preferences, bookmarks) \<Rightarrow>
          (let user_ids = remdups (map user_id interactions)
           in if length user_ids < MIN_USERS
              then (Inr 0, store ev, [Not_enough_users (length user_ids), Skipping])
              else if length interactions < MIN_INTERACTIONS
              then (Inr 0, store ev, [Not_enough_interactions (length interactions), Skipping])
              else train_and_upload ev interactions preferences bookmarks))"

text \<open>\<^verbatim>\<open>main\<close>: the exit code, the store afterwards and everything printed.\<close>

definition main :: "env \<Rightarrow> int \<times> db \<times> msg list" where
  "main ev =
     (case main_try ev of
        (Inl e, d, out) \<Rightarrow> (1, d, [Banner, Title, Banner, Blank] @ out @ [Training_failed e])
      | (Inr code, d, out) \<Rightarrow> (code, d, [Banner, Title, Banner, Blank] @ out))"

section \<open>Example runs\<close>

text \<open>
  A stand-in for the decomposition in the example runs below. Like
  \<^verbatim>\<open>TruncatedSVD.fit_transform\<close> it raises \<^verbatim>\<open>ValueError\<close> for an array
  with no row or with fewer than 2 columns; otherwise it returns arrays of the shapes
  scikit-learn returns, (rows, n) and (columns, n): the factors of a user are \<open>n\<close>
  copies of the sum of its row, the factors of an article \<open>n\<close> copies of the sum of its
  column.
\<close>

definition sums_fit :: svd where
  "sums_fit m n =
     (if m = [] \<or> \<not> list_all (\<lambda>row. 2 \<le> length row) m
      then Inl (Raised ''ValueError'')
      else Inr (map (\<lambda>row. replicate (nat n) (sum_list row)) m,
                map (\<lambda>col. replicate (nat n) (sum_list col)) (transpose m),
                1))"

text \<open>A single user who read three articles: a matrix of one row and three columns.\<close>

definition one_reader_interactions :: "interaction list" where
  "one_reader_interactions =
     map (\<lambda>a. \<lparr>user_id = ''u1'', article_id = a, click_count = 1, time_spent = 0,
                is_bookmarked = False, category = ''tech''\<rparr>)
       [''i1'', ''i2'', ''i3'']"

text \<open>
  The end-to-end scenario: two users, three interaction events, no bookmark events and no
  preference records, run against an empty store that accepts the write.
\<close>

definition example_interactions :: "interaction list" where
  "example_interactions =
     [\<lparr>user_id = ''u1'', article_id = ''i1'', click_count = 2, time_spent = 0,
        is_bookmarked = False, category = ''tech''\<rparr>,
      \<lparr>user_id = ''u1'', article_id = ''i2'', click_count = 0, time_spent = 60,
        is_bookmarked = True, category = ''tech''\<rparr>,
      \<lparr>user_id = ''u2'', article_id = ''i1'', click_count = 1, time_spent = 30,
        is_bookmarked = False, category = ''tech''\<rparr>]"

definition example_env :: env where
  "example_env =
     \<lparr>fetched = Inr (example_interactions, [], []),
      svd_fit = sums_fit,
      now = \<lparr>stamp = ''20240101_120000'', iso = ''2024-01-01T12:00:00''\<rparr>,
      store = \<lparr>stored = None, set_raises = None\<rparr>\<rparr>"

text \<open>
  The skip scenario (one user with five interactions), and a store whose write raises.
\<close>

definition single_user_interactions :: "interaction list" where
  "single_user_interactions =
     map (\<lambda>a. \<lparr>user_id = ''u1'', article_id = a, click_count = 1, time_spent = 30,
                is_bookmarked = False, category = ''tech''\<rparr>)
       [''i1'', ''i2'', ''i3'', ''i4'', ''i5'']"

definition failing_store :: db where
  "failing_store = \<lparr>stored = None, set_raises = Some (Raised ''write refused'')\<rparr>"

section \<open>Properties\<close>

subsection \<open>Dicts\<close>

lemma map_of_dict_set: "map_of (dict_set d k v) = (map_of d)(k \<mapsto> v)"
  by (induction d) (auto simp: fun_eq_iff)

lemma dict_get_dict_set:
  "dict_get (dict_set d k v) k' dflt = (if k' = k then v else dict_get d k' dflt)"
  by (simp add: dict_get_def map_of_dict_set)

lemma keys_dict_set: "fst ` set (dict_set d k v) = insert k (fst ` set d)"
  by (induction d) auto

lemma distinct_dict_set: "distinct (map fst d) \<Longrightarrow> distinct (map fst (dict_set d k v))"
proof (induction d)
  case Nil
  show ?case by simp
next
  case (Cons p d)
  have "fst ` set (dict_set d k v) = insert k (fst ` set d)"
    by (rule keys_dict_set)
  with Cons show ?case by auto
qed

subsection \<open>Scores\<close>

lemma dict_get_add_interactions:
  "dict_get (add_interactions sc is) k 0 =
     dict_get sc k 0 + (\<Sum>i\<leftarrow>filter (\<lambda>i. (user_id i, article_id i) = k) is. interaction_score i)"
  by (induction "is" arbitrary: sc) (auto simp: dict_get_dict_set Let_def)

lemma dict_get_add_bookmarks:
  "dict_get (add_bookmarks sc bs) k 0 =
     dict_get sc k 0 + 5 * real (length (filter (\<lambda>b. (bm_user_id b, bm_article_id b) = k) bs))"
  by (induction bs arbitrary: sc) (auto simp: dict_get_dict_set Let_def)

lemma keys_add_interactions:
  "fst ` set (add_interactions sc is) = fst ` set sc \<union> (\<lambda>i. (user_id i, article_id i)) ` set is"
  by (induction "is" arbitrary: sc) (auto simp: keys_dict_set Let_def)

lemma keys_add_bookmarks:
  "fst ` set (add_bookmarks sc bs) = fst ` set sc \<union> (\<lambda>b. (bm_user_id b, bm_article_id b)) ` set bs"
  by (induction bs arbitrary: sc) (auto simp: keys_dict_set Let_def)

lemma distinct_add_interactions:
  "distinct (map fst sc) \<Longrightarrow> distinct (map fst (add_interactions sc is))"
  by (induction "is" arbitrary: sc) (simp_all add: distinct_dict_set Let_def)

lemma distinct_add_bookmarks:
  "distinct (map fst sc) \<Longrightarrow> distinct (map fst (add_bookmarks sc bs))"
  by (induction bs arbitrary: sc) (simp_all add: distinct_dict_set Let_def)

lemma keys_build_scores:
  "fst ` set (build_scores is bs) =
     (\<lambda>i. (user_id i, article_id i)) ` set is \<union> (\<lambda>b. (bm_user_id b, bm_article_id b)) ` set bs"
  by (simp add: build_scores_def keys_add_bookmarks keys_add_interactions)

lemma distinct_build_scores: "distinct (map fst (build_scores is bs))"
  by (simp add: build_scores_def distinct_add_bookmarks distinct_add_interactions)

subsection \<open>The rank clamp\<close>

lemma clamp_components_eq:
  "clamp_components n (u, i) = (if min n (min u i - 1) < 1 then 1 else min n (min u i - 1))"
  by (simp add: clamp_components_def Let_def)

lemma train_svd_model_rank:
  assumes "train_svd_model fit matrix requested = (Inr (uf, af, r), out)"
  shows "r = clamp_components requested (shape matrix)"
  using assms by (auto simp: train_svd_model_def Let_def split: sum.splits)

subsection \<open>The matrix builder\<close>

lemma train_svd_model_calls_fit:
  "train_svd_model fit matrix requested =
     (case fit (df_values matrix) (clamp_components requested (shape matrix)) of
        Inl e \<Rightarrow> (Inl e, [Training_svd requested])
      | Inr (uf, af, ev) \<Rightarrow>
          (Inr (uf, af, clamp_components requested (shape matrix)),
           [Training_svd requested, Svd_trained ev]))"
  by (simp add: train_svd_model_def Let_def)

lemma train_svd_model_fit_returned:
  assumes "train_svd_model fit matrix requested = (Inr (uf, af, r), out)"
  shows "\<exists>ev. fit (df_values matrix) r = Inr (uf, af, ev)"
  using assms
  by (cases "fit (df_values matrix) (clamp_components requested (shape matrix))")
    (auto simp: train_svd_model_calls_fit)

lemma sums_fit_needs_two_columns:
  assumes "sums_fit cells n = Inr res"
  shows "\<forall>row\<in>set cells. 2 \<le> length row"
  using assms by (simp add: sums_fit_def list_all_iff split: if_splits)

lemma build_interaction_matrix_Some:
  assumes "build_interaction_matrix is bs = (Some (m, us, as), out)"
  shows "build_scores is bs \<noteq> []" and "m = pivot_table (build_scores is bs)"
    and "us = df_index m" and "as = df_columns m"
  using assms by (auto simp: build_interaction_matrix_def Let_def split: if_splits)

lemma shape_pivot_table:
  "shape (pivot_table sc) =
     (int (length (df_index (pivot_table sc))), int (length (df_columns (pivot_table sc))))"
  by (simp add: shape_def)

lemma pivot_table_nonempty:
  assumes "sc \<noteq> []"
  shows "df_index (pivot_table sc) \<noteq> []" and "df_columns (pivot_table sc) \<noteq> []"
proof -
  have "set (df_index (pivot_table sc)) = (\<lambda>(k, v). fst k) ` set sc"
    by (simp add: pivot_table_def Let_def)
  with assms show "df_index (pivot_table sc) \<noteq> []"
    by (cases sc) auto
  have "set (df_columns (pivot_table sc)) = (\<lambda>(k, v). snd k) ` set sc"
    by (simp add: pivot_table_def Let_def)
  with assms show "df_columns (pivot_table sc) \<noteq> []"
    by (cases sc) auto
qed

subsection \<open>Category weights\<close>

lemma dict_get_Nil: "dict_get [] k dflt = dflt"
  by (simp add: dict_get_def)

lemma dict_get_add_category_scores:
  "dict_get (add_category_scores cw cs) c 0 =
     dict_get cw c 0 + (\<Sum>(c', s)\<leftarrow>filter (\<lambda>(c', s). c' = c) cs. s)"
  by (induction cw cs rule: add_category_scores.induct) (auto simp: dict_get_dict_set)

lemma dict_get_accumulate_category_weights:
  "dict_get (accumulate_category_weights cw prefs) c 0 =
     dict_get cw c 0 +
     (\<Sum>p\<leftarrow>prefs. \<Sum>(c', s)\<leftarrow>filter (\<lambda>(c', s). c' = c) (category_scores p). s)"
  by (induction prefs arbitrary: cw) (simp_all add: dict_get_add_category_scores)

lemma Max_divide_by_Max:
  fixes vs :: "real list"
  assumes "vs \<noteq> []" and "0 < Max (set vs)"
  shows "Max (set (map (\<lambda>v. v / Max (set vs)) vs)) = 1"
proof (rule Max_eqI)
  show "finite (set (map (\<lambda>v. v / Max (set vs)) vs))"
    by simp
next
  fix y
  assume "y \<in> set (map (\<lambda>v. v / Max (set vs)) vs)"
  then obtain v where v: "v \<in> set vs" and y: "y = v / Max (set vs)"
    by auto
  from v have "v \<le> Max (set vs)"
    by simp
  with assms(2) show "y \<le> 1"
    by (simp add: y divide_le_eq)
next
  from assms(1) have "Max (set vs) \<in> set vs"
    by (intro Max_in) simp_all
  moreover from assms(2) have "Max (set vs) / Max (set vs) = 1"
    by simp
  ultimately show "1 \<in> set (map (\<lambda>v. v / Max (set vs)) vs)"
    by force
qed

lemma weights_of_normalized:
  "map weight (map (\<lambda>(k, v). \<lparr>cw_category = k, weight = v / M\<rparr>) raw) = map (\<lambda>v. v / M) (map snd raw)"
  by (induction raw) auto

subsection \<open>The cells of the matrix\<close>

lemma dict_get_not_key: "k \<notin> fst ` set d \<Longrightarrow> dict_get d k dflt = dflt"
  by (simp add: dict_get_def map_of_eq_None_iff [THEN iffD2])

lemma dict_get_distinct: "distinct (map fst d) \<Longrightarrow> (k, v) \<in> set d \<Longrightarrow> dict_get d k dflt = v"
  by (simp add: dict_get_def)

lemma sum_list_dict_get:
  assumes "distinct (map fst d)"
  shows "(\<Sum>k\<leftarrow>map fst d. dict_get d k 0) = (\<Sum>(k, v)\<leftarrow>d. (v :: real))"
proof -
  have "map (\<lambda>k. dict_get d k 0) (map fst d) = map (\<lambda>(k, v). v) d"
    unfolding map_map by (rule map_cong) (use assms in \<open>auto simp: dict_get_distinct\<close>)
  then show ?thesis by (simp only:)
qed

lemma pivot_table_labels:
  "set (df_index (pivot_table sc)) = (\<lambda>(k, v). fst k) ` set sc"
  "set (df_columns (pivot_table sc)) = (\<lambda>(k, v). snd k) ` set sc"
  "distinct (df_index (pivot_table sc))" "distinct (df_columns (pivot_table sc))"
  "sorted (df_index (pivot_table sc))" "sorted (df_columns (pivot_table sc))"
  by (simp_all add: pivot_table_def Let_def)

lemma pivot_table_values:
  "df_values (pivot_table sc) =
     map (\<lambda>u. map (\<lambda>a. dict_get sc (u, a) 0) (df_columns (pivot_table sc)))
       (df_index (pivot_table sc))"
  by (simp add: pivot_table_def Let_def)

lemma sum_pivot_table:
  assumes "distinct (map fst sc)"
  shows "(\<Sum>row\<leftarrow>df_values (pivot_table sc). sum_list row) = (\<Sum>(k, v)\<leftarrow>sc. v)"
proof -
  let ?U = "df_index (pivot_table sc)" and ?A = "df_columns (pivot_table sc)"
  let ?f = "\<lambda>k. dict_get sc k (0 :: real)"
  have keys: "fst ` set sc \<subseteq> set ?U \<times> set ?A"
    by (force simp: pivot_table_labels)
  have "(\<Sum>row\<leftarrow>df_values (pivot_table sc). sum_list row) =
      (\<Sum>u\<leftarrow>?U. \<Sum>a\<leftarrow>?A. ?f (u, a))"
    by (simp add: pivot_table_values comp_def)
  also have "\<dots> = (\<Sum>u\<in>set ?U. \<Sum>a\<in>set ?A. ?f (u, a))"
    by (simp add: sum_list_distinct_conv_sum_set pivot_table_labels)
  also have "\<dots> = (\<Sum>k\<in>set ?U \<times> set ?A. ?f k)"
    by (simp add: sum.cartesian_product)
  also have "\<dots> = (\<Sum>k\<in>fst ` set sc. ?f k)"
    by (rule sum.mono_neutral_right) (use keys in \<open>auto simp: dict_get_not_key\<close>)
  also have "\<dots> = (\<Sum>k\<leftarrow>map fst sc. ?f k)"
    unfolding sum_list_distinct_conv_sum_set [OF assms] by (simp only: set_map)
  also have "\<dots> = (\<Sum>(k, v)\<leftarrow>sc. v)"
    by (rule sum_list_dict_get [OF assms])
  finally show ?thesis .
qed

subsection \<open>The artifact and the pipeline behind the gate\<close>

lemma enumerate_rows_Inr:
  assumes "enumerate_rows i xs rows = Inr out"
  shows "map fst out = xs \<and> (\<forall>j<length xs. snd (out ! j) = rows ! (i + j))"
  using assms
proof (induction i xs rows arbitrary: out rule: enumerate_rows.induct)
  case (1 i rows)
  then show ?case by simp
next
  case (2 i x xs rows)
  from "2.prems" obtain rest where
    lt: "i < length rows" and rest: "enumerate_rows (Suc i) xs rows = Inr rest"
    and out: "out = (x, rows ! i) # rest"
    by (auto split: if_splits sum.splits)
  from "2.IH" [OF lt rest] have
    ih: "map fst rest = xs" "\<forall>j<length xs. snd (rest ! j) = rows ! (Suc i + j)"
    by simp_all
  have "snd (out ! j) = rows ! (i + j)" if "j < length (x # xs)" for j
    using that ih(2) by (cases j) (simp_all add: out)
  with ih(1) show ?case
    by (simp add: out)
qed

lemma build_model_artifacts_Inr:
  assumes "build_model_artifacts clk uids aids uf af n prefs = (Inr (doc, ver), out)"
  shows "map userId (userFactors doc) = uids"
    and "\<forall>i<length uids. factors (userFactors doc ! i) = uf ! i"
    and "map articleId (articleFactors doc) = aids"
    and "\<forall>j<length aids. article_factors_of (articleFactors doc ! j) = af ! j"
    and "trainingStats doc = \<lparr>totalUsers = int (length uids), totalArticles = int (length aids),
           totalInteractions = (\<Sum>row\<leftarrow>uf. int (length row))\<rparr>"
    and "nComponents doc = n" and "categoryWeights doc = category_weights_list prefs"
    and "version doc = ver" and "ver = ''v'' @ stamp clk"
proof -
  obtain urows where u: "enumerate_rows 0 uids uf = Inr urows"
    using assms
    by (cases "enumerate_rows 0 uids uf") (simp_all add: build_model_artifacts_def Let_def)
  obtain arows where a: "enumerate_rows 0 aids af = Inr arows"
    using assms u
    by (cases "enumerate_rows 0 aids af") (simp_all add: build_model_artifacts_def Let_def)
  from assms have doc: "doc = \<lparr>version = ''v'' @ stamp clk, createdAt = iso clk,
        algorithmType = ''collaborative_filtering_svd'', nComponents = n,
        trainingStats = \<lparr>totalUsers = int (length uids), totalArticles = int (length aids),
          totalInteractions = (\<Sum>row\<leftarrow>uf. int (length row))\<rparr>,
        categoryWeights = category_weights_list prefs,
        userFactors = map (\<lambda>(u, r). \<lparr>userId = u, factors = r\<rparr>) urows,
        articleFactors = map (\<lambda>(a, r). \<lparr>articleId = a, article_factors_of = r\<rparr>) arows\<rparr>"
    and ver: "ver = ''v'' @ stamp clk"
    unfolding build_model_artifacts_def Let_def u a by auto
  note eu = enumerate_rows_Inr [OF u] and ea = enumerate_rows_Inr [OF a]
  have lu: "length urows = length uids" and la: "length arows = length aids"
    using eu ea by (metis length_map)+
  show "map userId (userFactors doc) = uids"
    using eu by (simp add: doc comp_def split_def)
  show "\<forall>i<length uids. factors (userFactors doc ! i) = uf ! i"
    using eu lu by (simp add: doc split_def)
  show "map articleId (articleFactors doc) = aids"
    using ea by (simp add: doc comp_def split_def)
  show "\<forall>j<length aids. article_factors_of (articleFactors doc ! j) = af ! j"
    using ea la by (simp add: doc split_def)
  show "trainingStats doc = \<lparr>totalUsers = int (length uids), totalArticles = int (length aids),
           totalInteractions = (\<Sum>row\<leftarrow>uf. int (length row))\<rparr>"
    by (simp add: doc)
  show "nComponents doc = n" "categoryWeights doc = category_weights_list prefs"
    "version doc = ver" "ver = ''v'' @ stamp clk"
    by (simp_all add: doc ver)
qed

lemma sum_list_const_length:
  assumes "\<forall>row\<in>set rows. int (length row) = n"
  shows "(\<Sum>row\<leftarrow>rows. int (length row)) = int (length rows) * n"
  using assms by (induction rows) (simp_all add: algebra_simps)

lemma train_and_upload_eq:
  assumes "build_interaction_matrix is bs = (Some (m, uids, aids), out1)"
    and "train_svd_model (svd_fit ev) m N_COMPONENTS = (Inr (uf, af, r), out2)"
    and "build_model_artifacts (now ev) uids aids uf af r prefs = (Inr (doc, ver), out3)"
  shows "train_and_upload ev is prefs bs =
    (case set_raises (store ev) of
       Some e \<Rightarrow> (Inl e, store ev, out1 @ out2 @ out3 @ [Uploading ver])
     | None \<Rightarrow> (Inr 0, (store ev)\<lparr>stored := Some doc\<rparr>,
         out1 @ out2 @ out3 @
         [Uploading ver, Uploaded, Blank, Banner, Training_complete ver, Banner]))"
  by (simp add: train_and_upload_def assms upload_model_to_firestore_def split: option.splits)

lemma train_and_upload_artifacts_raise:
  assumes "build_interaction_matrix is bs = (Some (m, uids, aids), out1)"
    and "train_svd_model (svd_fit ev) m N_COMPONENTS = (Inr (uf, af, r), out2)"
    and "build_model_artifacts (now ev) uids aids uf af r prefs = (Inl e, out3)"
  shows "train_and_upload ev is prefs bs = (Inl e, store ev, out1 @ out2 @ out3)"
  by (simp add: train_and_upload_def assms)

lemma train_and_upload_train_raise:
  assumes "build_interaction_matrix is bs = (Some (m, uids, aids), out1)"
    and "train_svd_model (svd_fit ev) m N_COMPONENTS = (Inl e, out2)"
  shows "train_and_upload ev is prefs bs = (Inl e, store ev, out1 @ out2)"
  by (simp add: train_and_upload_def assms)

lemma train_and_upload_no_matrix:
  assumes "build_interaction_matrix is bs = (None, out1)"
  shows "train_and_upload ev is prefs bs = (Inr 1, store ev, out1 @ [Failed_to_build_matrix])"
  by (simp add: train_and_upload_def assms)

lemma example_matrix:
  "build_interaction_matrix example_interactions [] =
     (Some (\<lparr>df_values = [[2, 7], [2, 0]], df_index = [''u1'', ''u2''],
              df_columns = [''i1'', ''i2'']\<rparr>, [''u1'', ''u2''], [''i1'', ''i2'']),
      [Building_matrix, Matrix_shape (2, 2)])"
  by (simp add: example_interactions_def build_interaction_matrix_def build_scores_def
      pivot_table_def dict_get_def interaction_score_def shape_def Let_def)

lemma example_training:
  "train_svd_model sums_fit
     \<lparr>df_values = [[2, 7], [2, 0]], df_index = [''u1'', ''u2''], df_columns = [''i1'', ''i2'']\<rparr>
     N_COMPONENTS =
     (Inr ([[9], [2]], [[4], [7]], 1), [Training_svd 10, Svd_trained 1])"
  by (simp add: train_svd_model_def sums_fit_def Let_def N_COMPONENTS_def clamp_components_def
      shape_def)

lemma example_artifacts:
  "\<exists>doc out3. build_model_artifacts \<lparr>stamp = ''20240101_120000'', iso = ''2024-01-01T12:00:00''\<rparr>
     [''u1'', ''u2''] [''i1'', ''i2''] [[9], [2]] [[4], [7]] 1 prefs =
     (Inr (doc, ''v20240101_120000''), out3)"
  by (simp add: build_model_artifacts_def Let_def)

subsection \<open>What a run prints, and the gate\<close>

lemma build_interaction_matrix_log:
  "snd (build_interaction_matrix is bs) = [Building_matrix, No_interaction_data]
   \<or> (\<exists>s. snd (build_interaction_matrix is bs) = [Building_matrix, Matrix_shape s])"
  by (simp add: build_interaction_matrix_def Let_def)

lemma train_svd_model_log:
  "snd (train_svd_model f m n) = [Training_svd n]
   \<or> (\<exists>x. snd (train_svd_model f m n) = [Training_svd n, Svd_trained x])"
  by (cases "f (df_values m) (clamp_components n (shape m))")
    (auto simp: train_svd_model_def Let_def)

lemma build_model_artifacts_log:
  "snd (build_model_artifacts clk uids aids uf af n prefs) = [Building_artifacts]
   \<or> (\<exists>a b. snd (build_model_artifacts clk uids aids uf af n prefs) =
         [Building_artifacts, Artifacts_built a b])"
  by (cases "enumerate_rows 0 uids uf"; cases "enumerate_rows 0 aids af")
    (simp_all add: build_model_artifacts_def Let_def)

lemma build_interaction_matrix_no_upload_line:
  assumes "build_interaction_matrix is bs = (r, out)"
  shows "Failed_to_upload \<notin> set out" and "Uploading v \<notin> set out"
  using build_interaction_matrix_log [of "is" bs] assms by auto

lemma train_svd_model_no_upload_line:
  assumes "train_svd_model f m n = (r, out)"
  shows "Failed_to_upload \<notin> set out" and "Uploading v \<notin> set out"
  using train_svd_model_log [of f m n] assms by auto

lemma build_model_artifacts_no_upload_line:
  assumes "build_model_artifacts clk uids aids uf af k prefs = (r, out)"
  shows "Failed_to_upload \<notin> set out" and "Uploading v \<notin> set out"
  using build_model_artifacts_log [of clk uids aids uf af k prefs] assms by auto

lemma train_and_upload_upload_line:
  assumes "train_and_upload ev is ps bs = (res, d, out)"
  shows "Failed_to_upload \<notin> set out
    \<and> (Uploading v \<in> set out \<longrightarrow>
         (res = Inr 0 \<and> set_raises (store ev) = None)
         \<or> (\<exists>e. res = Inl e \<and> set_raises (store ev) = Some e \<and> d = store ev))"
proof (cases "build_interaction_matrix is bs")
  case b: (Pair mres out1)
  have l1: "Failed_to_upload \<notin> set out1" "Uploading v \<notin> set out1"
    by (rule build_interaction_matrix_no_upload_line [OF b])+
  show ?thesis
  proof (cases mres)
    case None
    with assms train_and_upload_no_matrix [OF b [unfolded None]] l1 show ?thesis
      by auto
  next
    case (Some mu)
    obtain m uids aids where mu: "mu = (m, uids, aids)"
      by (cases mu)
    note b' = b [unfolded Some mu]
    show ?thesis
    proof (cases "train_svd_model (svd_fit ev) m N_COMPONENTS")
      case t: (Pair tres out2)
      have l2: "Failed_to_upload \<notin> set out2" "Uploading v \<notin> set out2"
        by (rule train_svd_model_no_upload_line [OF t])+
      show ?thesis
      proof (cases tres)
        case (Inl e)
        with assms train_and_upload_train_raise [OF b' t [unfolded Inl]] l1 l2 show ?thesis
          by auto
      next
        case (Inr fr)
        obtain uf af r where fr: "fr = (uf, af, r)"
          by (cases fr)
        note t' = t [unfolded Inr fr]
        show ?thesis
        proof (cases "build_model_artifacts (now ev) uids aids uf af r ps")
          case a: (Pair ares out3)
          have l3: "Failed_to_upload \<notin> set out3" "Uploading v \<notin> set out3"
            by (rule build_model_artifacts_no_upload_line [OF a])+
          show ?thesis
          proof (cases ares)
            case (Inl e)
            with assms train_and_upload_artifacts_raise [OF b' t' a [unfolded Inl]] l1 l2 l3
            show ?thesis
              by auto
          next
            case (Inr dv)
            obtain doc ver where dv: "dv = (doc, ver)"
              by (cases dv)
            from assms train_and_upload_eq [OF b' t' a [unfolded Inr dv]] l1 l2 l3
            show ?thesis
              by (auto split: option.splits)
          qed
        qed
      qed
    qed
  qed
qed

lemma train_and_upload_log_prefix:
  "\<exists>rest. snd (snd (train_and_upload ev is ps bs)) = snd (build_interaction_matrix is bs) @ rest"
  by (simp add: train_and_upload_def upload_model_to_firestore_def
      split: prod.splits option.splits sum.splits)

lemma train_and_upload_starts_building:
  "Building_matrix \<in> set (snd (snd (train_and_upload ev is ps bs)))"
proof -
  obtain rest where "snd (snd (train_and_upload ev is ps bs)) =
      snd (build_interaction_matrix is bs) @ rest"
    using train_and_upload_log_prefix by blast
  moreover have "Building_matrix \<in> set (snd (build_interaction_matrix is bs))"
    using build_interaction_matrix_log [of "is" bs] by auto
  ultimately show ?thesis by simp
qed

lemma main_try_gate:
  assumes "fetched ev = Inr (is, ps, bs)"
  shows "main_try ev =
    (if card (set (map user_id is)) < 2
     then (Inr 0, store ev, [Not_enough_users (card (set (map user_id is))), Skipping])
     else if length is < 3
     then (Inr 0, store ev, [Not_enough_interactions (length is), Skipping])
     else train_and_upload ev is ps bs)"
  by (simp add: main_try_def assms Let_def MIN_USERS_def MIN_INTERACTIONS_def
      length_remdups_card_conv)

lemma main_try_fetch_raises:
  assumes "fetched ev = Inl e"
  shows "main_try ev = (Inl e, store ev, [])"
  by (simp add: main_try_def assms)

lemma main_of_main_try:
  assumes "main_try ev = (res, d, out)"
  shows "main ev =
    (case res of
       Inl e \<Rightarrow> (1, d, [Banner, Title, Banner, Blank] @ out @ [Training_failed e])
     | Inr code \<Rightarrow> (code, d, [Banner, Title, Banner, Blank] @ out))"
  by (cases res) (simp_all add: main_def assms)

lemma main_try_upload_line:
  assumes "main_try ev = (res, d, out)"
  shows "Failed_to_upload \<notin> set out
    \<and> (Uploading v \<in> set out \<longrightarrow>
         (res = Inr 0 \<and> set_raises (store ev) = None)
         \<or> (\<exists>e. res = Inl e \<and> set_raises (store ev) = Some e \<and> d = store ev))"
proof (cases "fetched ev")
  case (Inl e)
  with assms main_try_fetch_raises [OF Inl] show ?thesis
    by auto
next
  case (Inr f)
  obtain "is" ps bs where f: "f = (is, ps, bs)"
    by (cases f)
  note g = main_try_gate [OF Inr [unfolded f]]
  show ?thesis
  proof (cases "card (set (map user_id is)) < 2 \<or> length is < 3")
    case True
    with assms g show ?thesis
      by (auto split: if_splits)
  next
    case False
    with assms g have "train_and_upload ev is ps bs = (res, d, out)"
      by (simp split: if_splits)
    then show ?thesis
      by (rule train_and_upload_upload_line)
  qed
qed

lemmas run_defs =
  main_def main_try_def train_and_upload_def upload_model_to_firestore_def
  build_model_artifacts_def train_svd_model_def build_interaction_matrix_def build_scores_def
  pivot_table_def dict_get_def interaction_score_def clamp_components_def shape_def
  category_weights_list_def normalize_category_weights_def
  sums_fit_def N_COMPONENTS_def MIN_USERS_def MIN_INTERACTIONS_def Let_def
  example_env_def example_interactions_def single_user_interactions_def failing_store_def

lemma build_scores_nonempty: "is \<noteq> [] \<Longrightarrow> build_scores is bs \<noteq> []"
proof
  assume "is \<noteq> []" and "build_scores is bs = []"
  then have "fst ` set (build_scores is bs) = {}"
    by simp
  with \<open>is \<noteq> []\<close> show False
    unfolding keys_build_scores by simp
qed

section \<open>The claims\<close>

text \<open>
  C1. The score of a single interaction event is
  \<open>click_count + 5 * is_bookmarked + time_spent / 30\<close>; every bookmark event adds 5 to
  the score of its (user, article) pair on its own; and the final score entry of a pair
  is the sum of the contributions of all interaction events and all bookmark events of that
  pair, so an interaction that carries the bookmark flag and a bookmark event for the same
  pair are both counted. The pairs that have an entry are exactly the pairs of the
  events.
\<close>

theorem score_entry_is_sum_of_contributions:
  "dict_get (build_scores [i] []) (user_id i, article_id i) 0 =
     real_of_int (click_count i) + (if is_bookmarked i then 5 else 0) + time_spent i / 30
   \<and> dict_get (build_scores is bs) (u, a) 0 =
     (\<Sum>i\<leftarrow>filter (\<lambda>i. user_id i = u \<and> article_id i = a) is.
        real_of_int (click_count i) + (if is_bookmarked i then 5 else 0) + time_spent i / 30)
     + 5 * real (length (filter (\<lambda>b. bm_user_id b = u \<and> bm_article_id b = a) bs))
   \<and> fst ` set (build_scores is bs) =
     (\<lambda>i. (user_id i, article_id i)) ` set is \<union> (\<lambda>b. (bm_user_id b, bm_article_id b)) ` set bs"
proof (intro conjI)
  show "dict_get (build_scores [i] []) (user_id i, article_id i) 0 =
     real_of_int (click_count i) + (if is_bookmarked i then 5 else 0) + time_spent i / 30"
    by (simp add: build_scores_def dict_get_def interaction_score_def)
  show "dict_get (build_scores is bs) (u, a) 0 =
     (\<Sum>i\<leftarrow>filter (\<lambda>i. user_id i = u \<and> article_id i = a) is.
        real_of_int (click_count i) + (if is_bookmarked i then 5 else 0) + time_spent i / 30)
     + 5 * real (length (filter (\<lambda>b. bm_user_id b = u \<and> bm_article_id b = a) bs))"
  proof -
    have "dict_get ([] :: scores) (u, a) 0 = 0"
      by (simp add: dict_get_def)
    then show ?thesis
      unfolding build_scores_def dict_get_add_bookmarks dict_get_add_interactions
      by (simp add: interaction_score_def [abs_def])
  qed
  show "fst ` set (build_scores is bs) =
     (\<lambda>i. (user_id i, article_id i)) ` set is \<union> (\<lambda>b. (bm_user_id b, bm_article_id b)) ` set bs"
    by (rule keys_build_scores)
qed

theorem score_entry_double_counts_bookmark:
  "dict_get (build_scores
      [\<lparr>user_id = ''u1'', article_id = ''i2'', click_count = 0, time_spent = 60,
         is_bookmarked = True, category = ''tech''\<rparr>]
      [\<lparr>bm_user_id = ''u1'', bm_article_id = ''i2'', bm_category = ''tech''\<rparr>])
     (''u1'', ''i2'') 0 = 12"
  using score_entry_is_sum_of_contributions
    [of "\<lparr>user_id = ''u1'', article_id = ''i2'', click_count = 0, time_spent = 60,
           is_bookmarked = True, category = ''tech''\<rparr>"
        "[\<lparr>user_id = ''u1'', article_id = ''i2'', click_count = 0, time_spent = 60,
           is_bookmarked = True, category = ''tech''\<rparr>]"
        "[\<lparr>bm_user_id = ''u1'', bm_article_id = ''i2'', bm_category = ''tech''\<rparr>]"
        "''u1''" "''i2''"]
  by simp

text \<open>
  C2. The rank the factorization uses is the effective rank
  \<open>min requested_rank (min num_users num_items - 1)\<close>, replaced by 1 when that value
  is below 1, where \<open>(num_users, num_items)\<close> is the shape of the matrix: the
  decomposition is called on the cells of the matrix with exactly this number of
  components, whatever it returns or raises is what the training step returns or raises,
  and the rank reported with the factors is this number again. For a matrix of 3 users and
  2 articles and a requested rank of 10 the rank is 1.
\<close>

theorem effective_rank_is_clamped_minimum:
  assumes "shape matrix = (num_users, num_items)"
    and "effective_rank =
      (if min requested_rank (min num_users num_items - 1) < 1 then 1
       else min requested_rank (min num_users num_items - 1))"
  shows "train_svd_model fit matrix requested_rank =
      (case fit (df_values matrix) effective_rank of
         Inl e \<Rightarrow> (Inl e, [Training_svd requested_rank])
       | Inr (uf, af, ev) \<Rightarrow>
           (Inr (uf, af, effective_rank), [Training_svd requested_rank, Svd_trained ev]))
    \<and> (\<forall>user_factors article_factors r out.
          train_svd_model fit matrix requested_rank = (Inr (user_factors, article_factors, r), out)
          \<longrightarrow> r = effective_rank
            \<and> (\<exists>ev. fit (df_values matrix) effective_rank = Inr (user_factors, article_factors, ev)))"
proof -
  have e: "clamp_components requested_rank (shape matrix) = effective_rank"
    unfolding assms by (simp only: clamp_components_eq)
  have "train_svd_model fit matrix requested_rank =
      (case fit (df_values matrix) effective_rank of
         Inl e \<Rightarrow> (Inl e, [Training_svd requested_rank])
       | Inr (uf, af, ev) \<Rightarrow>
           (Inr (uf, af, effective_rank), [Training_svd requested_rank, Svd_trained ev]))"
    using train_svd_model_calls_fit [of fit matrix requested_rank] by (simp only: e)
  moreover have "r = effective_rank
      \<and> (\<exists>ev. fit (df_values matrix) effective_rank = Inr (uf, af, ev))"
    if "train_svd_model fit matrix requested_rank = (Inr (uf, af, r), out)" for uf af r out
    using train_svd_model_rank [OF that] train_svd_model_fit_returned [OF that] e by simp
  ultimately show ?thesis
    by blast
qed

theorem effective_rank_three_users_two_items:
  "shape \<lparr>df_values = [[1, 0], [0, 2], [3, 0]], df_index = [''u1'', ''u2'', ''u3''],
      df_columns = [''a1'', ''a2'']\<rparr> = (3, 2)
   \<and> sums_fit [[1, 0], [0, 2], [3, 0]] 1 = Inr ([[1], [2], [3]], [[4], [2]], 1)
   \<and> train_svd_model sums_fit
       \<lparr>df_values = [[1, 0], [0, 2], [3, 0]], df_index = [''u1'', ''u2'', ''u3''],
        df_columns = [''a1'', ''a2'']\<rparr> 10
       = (Inr ([[1], [2], [3]], [[4], [2]], 1), [Training_svd 10, Svd_trained 1])"
proof -
  let ?m = "\<lparr>df_values = [[1, 0], [0, 2], [3, 0]], df_index = [''u1'', ''u2'', ''u3''],
      df_columns = [''a1'', ''a2'']\<rparr>"
  have sh: "shape ?m = (3, 2)"
    by (simp add: shape_def)
  have r: "(1 :: int) = (if min 10 (min 3 2 - 1) < 1 then 1 else min 10 (min 3 2 - 1))"
    by simp
  have f: "sums_fit [[1, 0], [0, 2], [3, 0]] 1 = Inr ([[1], [2], [3]], [[4], [2]], 1)"
    by (simp add: sums_fit_def)
  from effective_rank_is_clamped_minimum [OF sh r, of sums_fit]
  have "train_svd_model sums_fit ?m 10 =
      (case sums_fit (df_values ?m) 1 of
         Inl e \<Rightarrow> (Inl e, [Training_svd 10])
       | Inr (uf, af, ev) \<Rightarrow> (Inr (uf, af, 1), [Training_svd 10, Svd_trained ev]))"
    by blast
  with sh f show ?thesis
    by simp
qed

text \<open>
  C4 (as amended). For every matrix the matrix builder produces (from a non-empty score
  map) and every rank \<open>r\<close> the factorization returns for it,
  \<open>1 \<le> r\<close> and \<open>r \<le> max 1 (min num_users num_items - 1)\<close>, and the
  matrix has at least one user and one article. When the matrix has at least 2 users (as
  it has behind the gate of the pipeline) and the decomposition returns only for arrays of
  at least 2 columns (scikit-learn raises for fewer),
  \<open>r \<le> min num_users num_items - 1\<close>. For the matrix of a single user the clamp
  to 1 puts the rank above \<open>min num_users num_items - 1 = 0\<close>.
\<close>

theorem rank_bounds_of_built_matrix:
  assumes "build_interaction_matrix is bs = (Some (m, user_ids, article_ids), out1)"
    and "train_svd_model fit m requested_rank = (Inr (user_factors, article_factors, r), out2)"
  shows "1 \<le> r
    \<and> r \<le> max 1 (int (min (length user_ids) (length article_ids)) - 1)
    \<and> 1 \<le> min (length user_ids) (length article_ids)
    \<and> ((\<forall>cells n res. fit cells n = Inr res \<longrightarrow> (\<forall>row\<in>set cells. 2 \<le> length row))
         \<and> 2 \<le> length user_ids \<longrightarrow>
        r \<le> int (min (length user_ids) (length article_ids)) - 1)"
proof -
  note b = build_interaction_matrix_Some [OF assms(1)]
  have sh: "shape m = (int (length user_ids), int (length article_ids))"
    by (simp add: shape_def b(3,4))
  have r: "r = clamp_components requested_rank (int (length user_ids), int (length article_ids))"
    using train_svd_model_rank [OF assms(2)] sh by simp
  have "user_ids \<noteq> []" and "article_ids \<noteq> []"
    using pivot_table_nonempty [OF b(1)] b(2,3,4) by simp_all
  then have ne: "1 \<le> length user_ids" "1 \<le> length article_ids"
    by (simp_all add: Suc_le_eq)
  have basic: "1 \<le> r \<and> r \<le> max 1 (int (min (length user_ids) (length article_ids)) - 1)
      \<and> 1 \<le> min (length user_ids) (length article_ids)"
    using ne unfolding r clamp_components_eq by auto
  have "r \<le> int (min (length user_ids) (length article_ids)) - 1"
    if c: "\<forall>cells n res. fit cells n = Inr res \<longrightarrow> (\<forall>row\<in>set cells. 2 \<le> length row)"
      and u: "2 \<le> length user_ids"
  proof -
    obtain ev where "fit (df_values m) r = Inr (user_factors, article_factors, ev)"
      using train_svd_model_fit_returned [OF assms(2)] by blast
    with c have rows: "\<forall>row\<in>set (df_values m). 2 \<le> length row"
      by blast
    have m: "df_values m =
        map (\<lambda>u. map (\<lambda>a. dict_get (build_scores is bs) (u, a) 0) article_ids) user_ids"
      unfolding b(3,4) b(2) by (rule pivot_table_values)
    from \<open>user_ids \<noteq> []\<close> obtain u0 rest where "user_ids = u0 # rest"
      by (cases user_ids) auto
    with rows m have "2 \<le> length article_ids"
      by simp
    with u show ?thesis
      unfolding r clamp_components_eq by auto
  qed
  with basic show ?thesis
    by blast
qed

theorem rank_exceeds_bound_for_single_user:
  "fst (build_interaction_matrix one_reader_interactions [])
     = Some (\<lparr>df_values = [[1, 1, 1]], df_index = [''u1''],
               df_columns = [''i1'', ''i2'', ''i3'']\<rparr>,
         [''u1''], [''i1'', ''i2'', ''i3''])
   \<and> fst (train_svd_model sums_fit
       \<lparr>df_values = [[1, 1, 1]], df_index = [''u1''], df_columns = [''i1'', ''i2'', ''i3'']\<rparr>
       N_COMPONENTS) = Inr ([[3]], [[1], [1], [1]], 1)
   \<and> \<not> (1 \<le> int (min (length [''u1'']) (length [''i1'', ''i2'', ''i3''])) - 1)"
  by (simp add: one_reader_interactions_def build_interaction_matrix_def build_scores_def
      pivot_table_def dict_get_def interaction_score_def train_svd_model_def
      clamp_components_def shape_def sums_fit_def N_COMPONENTS_def Let_def)

theorem rank_bounds_two_users_two_articles:
  "fst (build_interaction_matrix example_interactions [])
     = Some (\<lparr>df_values = [[2, 7], [2, 0]], df_index = [''u1'', ''u2''],
               df_columns = [''i1'', ''i2'']\<rparr>, [''u1'', ''u2''], [''i1'', ''i2''])
   \<and> fst (train_svd_model sums_fit
       \<lparr>df_values = [[2, 7], [2, 0]], df_index = [''u1'', ''u2''],
        df_columns = [''i1'', ''i2'']\<rparr> N_COMPONENTS) = Inr ([[9], [2]], [[4], [7]], 1)
   \<and> (1::int) \<le> max 1 (int (min (length [''u1'', ''u2'']) (length [''i1'', ''i2''])) - 1)
   \<and> 2 \<le> length [''u1'', ''u2'']
   \<and> (1::int) \<le> int (min (length [''u1'', ''u2'']) (length [''i1'', ''i2''])) - 1"
proof -
  let ?m = "\<lparr>df_values = [[2, 7], [2, 0]], df_index = [''u1'', ''u2''],
               df_columns = [''i1'', ''i2'']\<rparr>"
  obtain r out2 where t: "train_svd_model sums_fit ?m N_COMPONENTS = (Inr ([[9], [2]], [[4], [7]], r), out2)"
    by (simp add: train_svd_model_def sums_fit_def Let_def N_COMPONENTS_def clamp_components_def shape_def)
  have c: "\<forall>cells n res. sums_fit cells n = Inr res \<longrightarrow> (\<forall>row\<in>set cells. 2 \<le> length row)"
    using sums_fit_needs_two_columns by blast
  have u: "2 \<le> length [''u1'', ''u2'']"
    by simp
  from rank_bounds_of_built_matrix [OF example_matrix t] c u
  have "1 \<le> r" and "r \<le> int (min (length [''u1'', ''u2'']) (length [''i1'', ''i2''])) - 1"
    by blast+
  then have "r = 1"
    by simp
  with t show ?thesis
    by (simp add: example_matrix)
qed

text \<open>
  C3 (as amended). The raw category weights are the totals of the preference records'
  \<open>category_scores\<close>, summed per category across all users. When the raw map is
  non-empty and its maximum is positive, every emitted weight is the raw total divided by
  that maximum, and the largest emitted weight is exactly 1. When the maximum is not
  positive (all totals are 0, say) the raw totals are emitted unchanged, so no weight is 1.
  When the raw map is empty the emitted list is empty. Raw totals
  \<open>{A: 10, B: 5, C: 20}\<close> give \<open>{A: 0.5, B: 0.25, C: 1}\<close>.
\<close>

theorem category_weights_are_normalized_by_positive_maximum:
  assumes "raw = accumulate_category_weights [] preferences"
  shows "dict_get raw c 0 =
       (\<Sum>p\<leftarrow>preferences. \<Sum>(c', s)\<leftarrow>filter (\<lambda>(c', s). c' = c) (category_scores p). s)
     \<and> category_weights_list preferences =
       (if raw \<noteq> [] \<and> 0 < Max (set (map snd raw))
        then map (\<lambda>(k, v). \<lparr>cw_category = k, weight = v / Max (set (map snd raw))\<rparr>) raw
        else map (\<lambda>(k, v). \<lparr>cw_category = k, weight = v\<rparr>) raw)
     \<and> (raw \<noteq> [] \<and> 0 < Max (set (map snd raw)) \<longrightarrow>
          Max (set (map weight (category_weights_list preferences))) = 1)
     \<and> (raw = [] \<longrightarrow> category_weights_list preferences = [])"
proof (intro conjI impI)
  show "dict_get raw c 0 =
       (\<Sum>p\<leftarrow>preferences. \<Sum>(c', s)\<leftarrow>filter (\<lambda>(c', s). c' = c) (category_scores p). s)"
    unfolding assms dict_get_accumulate_category_weights by (simp add: dict_get_Nil)
  show eq: "category_weights_list preferences =
       (if raw \<noteq> [] \<and> 0 < Max (set (map snd raw))
        then map (\<lambda>(k, v). \<lparr>cw_category = k, weight = v / Max (set (map snd raw))\<rparr>) raw
        else map (\<lambda>(k, v). \<lparr>cw_category = k, weight = v\<rparr>) raw)"
    by (simp add: category_weights_list_def normalize_category_weights_def Let_def assms
        split_def)
  show "Max (set (map weight (category_weights_list preferences))) = 1"
    if "raw \<noteq> [] \<and> 0 < Max (set (map snd raw))"
  proof -
    from that have "map snd raw \<noteq> []" and pos: "0 < Max (set (map snd raw))"
      by simp_all
    from Max_divide_by_Max [OF this]
    have "Max (set (map weight (map (\<lambda>(k, v).
        \<lparr>cw_category = k, weight = v / Max (set (map snd raw))\<rparr>) raw))) = 1"
      by (simp only: weights_of_normalized)
    with that show ?thesis
      unfolding eq by simp
  qed
  show "category_weights_list preferences = []" if "raw = []"
    using that unfolding eq by simp
qed

theorem category_weights_unnormalized_when_all_zero:
  "accumulate_category_weights []
     [\<lparr>pref_user_id = ''u1'', category_scores = [(''A'', 0)], total_interactions = 0\<rparr>]
     = [(''A'', 0)]
   \<and> category_weights_list
     [\<lparr>pref_user_id = ''u1'', category_scores = [(''A'', 0)], total_interactions = 0\<rparr>]
     = [\<lparr>cw_category = ''A'', weight = 0\<rparr>]
   \<and> Max (set (map weight (category_weights_list
     [\<lparr>pref_user_id = ''u1'', category_scores = [(''A'', 0)], total_interactions = 0\<rparr>])))
     \<noteq> 1"
  by (simp add: category_weights_list_def normalize_category_weights_def dict_get_def)

theorem category_weights_example_totals:
  "accumulate_category_weights []
     [\<lparr>pref_user_id = ''u1'', category_scores = [(''A'', 4), (''B'', 5), (''C'', 20)],
        total_interactions = 7\<rparr>,
      \<lparr>pref_user_id = ''u2'', category_scores = [(''A'', 6)], total_interactions = 2\<rparr>]
     = [(''A'', 10), (''B'', 5), (''C'', 20)]
   \<and> category_weights_list
     [\<lparr>pref_user_id = ''u1'', category_scores = [(''A'', 4), (''B'', 5), (''C'', 20)],
        total_interactions = 7\<rparr>,
      \<lparr>pref_user_id = ''u2'', category_scores = [(''A'', 6)], total_interactions = 2\<rparr>]
     = [\<lparr>cw_category = ''A'', weight = 1 / 2\<rparr>, \<lparr>cw_category = ''B'', weight = 1 / 4\<rparr>,
        \<lparr>cw_category = ''C'', weight = 1\<rparr>]
   \<and> Max (set (map weight (category_weights_list
     [\<lparr>pref_user_id = ''u1'', category_scores = [(''A'', 4), (''B'', 5), (''C'', 20)],
        total_interactions = 7\<rparr>,
      \<lparr>pref_user_id = ''u2'', category_scores = [(''A'', 6)], total_interactions = 2\<rparr>])))
     = 1
   \<and> category_weights_list [] = []"
proof -
  let ?P = "[\<lparr>pref_user_id = ''u1'', category_scores = [(''A'', 4), (''B'', 5), (''C'', 20)],
        total_interactions = 7\<rparr>,
      \<lparr>pref_user_id = ''u2'', category_scores = [(''A'', 6)], total_interactions = 2\<rparr>]"
  let ?raw = "[(''A'', 10), (''B'', 5), (''C'', 20 :: real)]"
  have raw: "?raw = accumulate_category_weights [] ?P"
    by (simp add: dict_get_def)
  have mx: "Max (set (map snd ?raw)) = 20"
    by simp
  note t = category_weights_are_normalized_by_positive_maximum [OF raw]
  have e: "[] = accumulate_category_weights [] []"
    by simp
  note u = category_weights_are_normalized_by_positive_maximum [OF e]
  from t u show ?thesis
    unfolding mx raw [symmetric] by simp
qed

text \<open>
  C6. For the matrix built from any events with a non-empty score map, the sum of all
  cells equals the sum of all score entries; the matrix has one row per returned user and
  one cell per returned article in each row; cell \<open>(i, j)\<close> is the score entry of
  the pair \<open>(user_ids[i], article_ids[j])\<close> when there is one, and it is exactly 0
  when that pair is not a key of the score map.
\<close>

theorem matrix_holds_the_scores_and_zeros:
  assumes "build_interaction_matrix is bs = (Some (m, user_ids, article_ids), out)"
  shows "(\<Sum>row\<leftarrow>df_values m. sum_list row) = (\<Sum>(k, v)\<leftarrow>build_scores is bs. v)
    \<and> length (df_values m) = length user_ids
    \<and> (\<forall>i<length user_ids. length (df_values m ! i) = length article_ids
        \<and> (\<forall>j<length article_ids.
              df_values m ! i ! j =
                (case map_of (build_scores is bs) (user_ids ! i, article_ids ! j) of
                   None \<Rightarrow> 0 | Some v \<Rightarrow> v)
            \<and> ((user_ids ! i, article_ids ! j) \<notin> fst ` set (build_scores is bs) \<longrightarrow>
                 df_values m ! i ! j = 0)))"
proof -
  note b = build_interaction_matrix_Some [OF assms]
  have m: "df_values m =
      map (\<lambda>u. map (\<lambda>a. dict_get (build_scores is bs) (u, a) 0) article_ids) user_ids"
    unfolding b(3,4) b(2) by (rule pivot_table_values)
  have "(\<Sum>row\<leftarrow>df_values m. sum_list row) = (\<Sum>(k, v)\<leftarrow>build_scores is bs. v)"
    unfolding b(2) by (rule sum_pivot_table [OF distinct_build_scores])
  moreover have "length (df_values m) = length user_ids"
    by (simp add: m)
  moreover have "length (df_values m ! i) = length article_ids" if "i < length user_ids" for i
    using that by (simp add: m)
  moreover have "df_values m ! i ! j =
      (case map_of (build_scores is bs) (user_ids ! i, article_ids ! j) of
         None \<Rightarrow> 0 | Some v \<Rightarrow> v)"
    if "i < length user_ids" "j < length article_ids" for i j
    using that by (simp add: m dict_get_def)
  moreover have "df_values m ! i ! j = 0"
    if "i < length user_ids" "j < length article_ids"
      "(user_ids ! i, article_ids ! j) \<notin> fst ` set (build_scores is bs)" for i j
    using that by (simp add: m dict_get_not_key)
  ultimately show ?thesis by blast
qed

theorem matrix_of_two_users_two_articles:
  "fst (build_interaction_matrix
     [\<lparr>user_id = ''u1'', article_id = ''i1'', click_count = 2, time_spent = 0,
        is_bookmarked = False, category = ''tech''\<rparr>,
      \<lparr>user_id = ''u1'', article_id = ''i2'', click_count = 0, time_spent = 60,
        is_bookmarked = True, category = ''tech''\<rparr>,
      \<lparr>user_id = ''u2'', article_id = ''i1'', click_count = 1, time_spent = 30,
        is_bookmarked = False, category = ''tech''\<rparr>] [])
     = Some (\<lparr>df_values = [[2, 7], [2, 0]], df_index = [''u1'', ''u2''],
               df_columns = [''i1'', ''i2'']\<rparr>, [''u1'', ''u2''], [''i1'', ''i2''])
   \<and> build_scores
     [\<lparr>user_id = ''u1'', article_id = ''i1'', click_count = 2, time_spent = 0,
        is_bookmarked = False, category = ''tech''\<rparr>,
      \<lparr>user_id = ''u1'', article_id = ''i2'', click_count = 0, time_spent = 60,
        is_bookmarked = True, category = ''tech''\<rparr>,
      \<lparr>user_id = ''u2'', article_id = ''i1'', click_count = 1, time_spent = 30,
        is_bookmarked = False, category = ''tech''\<rparr>] []
     = [((''u1'', ''i1''), 2), ((''u1'', ''i2''), 7), ((''u2'', ''i1''), 2)]
   \<and> (\<Sum>row\<leftarrow>[[2, 7], [2, 0 :: real]]. sum_list row) = 2 + 7 + 2
   \<and> [[2, 7], [2, 0 :: real]] ! 1 ! 1 = 0"
proof -
  let ?is = "[\<lparr>user_id = ''u1'', article_id = ''i1'', click_count = 2, time_spent = 0,
        is_bookmarked = False, category = ''tech''\<rparr>,
      \<lparr>user_id = ''u1'', article_id = ''i2'', click_count = 0, time_spent = 60,
        is_bookmarked = True, category = ''tech''\<rparr>,
      \<lparr>user_id = ''u2'', article_id = ''i1'', click_count = 1, time_spent = 30,
        is_bookmarked = False, category = ''tech''\<rparr>]"
  let ?m = "\<lparr>df_values = [[2, 7], [2, 0]], df_index = [''u1'', ''u2''],
               df_columns = [''i1'', ''i2'']\<rparr>"
  have sc: "build_scores ?is [] = [((''u1'', ''i1''), 2), ((''u1'', ''i2''), 7), ((''u2'', ''i1''), 2)]"
    by (simp add: build_scores_def dict_get_def interaction_score_def)
  obtain out where b: "build_interaction_matrix ?is [] = (Some (?m, [''u1'', ''u2''], [''i1'', ''i2'']), out)"
    by (simp add: build_interaction_matrix_def sc pivot_table_def dict_get_def Let_def)
  note t = matrix_holds_the_scores_and_zeros [OF b, unfolded sc]
  from t have "(\<Sum>row\<leftarrow>df_values ?m. sum_list row) = 2 + 7 + 2"
    by simp
  moreover from t have "df_values ?m ! 1 ! 1 = 0"
    by simp
  ultimately show ?thesis
    using b sc by simp
qed

text \<open>
  C5. For every artifact that is built, \<open>trainingStats.totalInteractions\<close> is the
  sum of the lengths of the rows of the user-factor array. When that array has one row per
  user and every row has \<open>n_components\<close> entries (the shape the decomposition
  returns), this is the sum over the artifact's \<open>userFactors\<close> entries of the length
  of their factor vectors, and it equals \<open>totalUsers * nComponents\<close>, the number of
  users times the achieved rank. It is not a count of interaction events.
\<close>

theorem total_interactions_is_sum_of_factor_lengths:
  assumes "build_model_artifacts clk user_ids article_ids user_factors article_factors n prefs
             = (Inr (doc, ver), out)"
  shows "totalInteractions (trainingStats doc) = (\<Sum>row\<leftarrow>user_factors. int (length row))
    \<and> (length user_factors = length user_ids \<and> (\<forall>row\<in>set user_factors. int (length row) = n) \<longrightarrow>
         totalInteractions (trainingStats doc) = (\<Sum>e\<leftarrow>userFactors doc. int (length (factors e)))
       \<and> totalInteractions (trainingStats doc) = totalUsers (trainingStats doc) * nComponents doc
       \<and> totalUsers (trainingStats doc) = int (length user_ids) \<and> nComponents doc = n)"
proof (intro conjI impI)
  note b = build_model_artifacts_Inr [OF assms]
  show t: "totalInteractions (trainingStats doc) = (\<Sum>row\<leftarrow>user_factors. int (length row))"
    by (simp add: b(5))
  assume h: "length user_factors = length user_ids \<and> (\<forall>row\<in>set user_factors. int (length row) = n)"
  have "length (userFactors doc) = length user_factors"
    using b(1) h by (metis length_map)
  with b(2) h have "map factors (userFactors doc) = user_factors"
    by (simp add: list_eq_iff_nth_eq)
  then have "(\<Sum>row\<leftarrow>user_factors. int (length row)) =
      (\<Sum>row\<leftarrow>map factors (userFactors doc). int (length row))"
    by (simp only:)
  then have "(\<Sum>e\<leftarrow>userFactors doc. int (length (factors e))) = (\<Sum>row\<leftarrow>user_factors. int (length row))"
    by (simp add: comp_def)
  with t show "totalInteractions (trainingStats doc) = (\<Sum>e\<leftarrow>userFactors doc. int (length (factors e)))"
    by simp
  show "totalInteractions (trainingStats doc) = totalUsers (trainingStats doc) * nComponents doc"
    using sum_list_const_length [of user_factors n] h by (simp add: b(5,6))
  show "totalUsers (trainingStats doc) = int (length user_ids)" "nComponents doc = n"
    by (simp_all add: b(5,6))
qed

theorem total_interactions_two_users_rank_one:
  "(case fst (build_model_artifacts
       \<lparr>stamp = ''20240101_120000'', iso = ''2024-01-01T12:00:00''\<rparr>
       [''u1'', ''u2''] [''i1'', ''i2''] [[9], [2]] [[4], [7]] 1 []) of
      Inl e \<Rightarrow> False
    | Inr (doc, ver) \<Rightarrow>
        totalInteractions (trainingStats doc) = 2 \<and> totalUsers (trainingStats doc) = 2
        \<and> nComponents doc = 1 \<and> map factors (userFactors doc) = [[9], [2]])"
proof -
  let ?clk = "\<lparr>stamp = ''20240101_120000'', iso = ''2024-01-01T12:00:00''\<rparr>"
  obtain doc ver out where
    b: "build_model_artifacts ?clk [''u1'', ''u2''] [''i1'', ''i2''] [[9], [2]] [[4], [7]] 1 []
          = (Inr (doc, ver), out)"
    and f: "map factors (userFactors doc) = [[9], [2]]"
    by (simp add: build_model_artifacts_def Let_def)
  note t = total_interactions_is_sum_of_factor_lengths [OF b]
  from t have "totalInteractions (trainingStats doc) = 2 \<and> totalUsers (trainingStats doc) = 2
      \<and> nComponents doc = 1"
    by simp
  with b f show ?thesis
    by simp
qed

text \<open>
  C9. In every run that builds a matrix, trains and publishes, the published artifact's
  \<open>userFactors\<close> list the user identifiers in exactly the order the matrix builder
  returned (which is the row order of the matrix), entry \<open>i\<close> pairing
  \<open>user_ids[i]\<close> with row \<open>i\<close> of the user-factor array; and likewise
  \<open>articleFactors\<close> for the article identifiers, the column order of the matrix and
  the rows of the article-factor array.
\<close>

theorem artifact_factors_follow_matrix_order:
  assumes b: "build_interaction_matrix is bs = (Some (m, user_ids, article_ids), out1)"
    and t: "train_svd_model (svd_fit ev) m N_COMPONENTS = (Inr (user_factors, article_factors, r), out2)"
    and run: "train_and_upload ev is prefs bs = (Inr 0, d, out)"
  shows "\<exists>doc. stored d = Some doc
    \<and> user_ids = df_index m \<and> article_ids = df_columns m
    \<and> map userId (userFactors doc) = user_ids
    \<and> (\<forall>i<length user_ids. userId (userFactors doc ! i) = user_ids ! i
          \<and> factors (userFactors doc ! i) = user_factors ! i)
    \<and> map articleId (articleFactors doc) = article_ids
    \<and> (\<forall>j<length article_ids. articleId (articleFactors doc ! j) = article_ids ! j
          \<and> article_factors_of (articleFactors doc ! j) = article_factors ! j)"
proof (cases "build_model_artifacts (now ev) user_ids article_ids user_factors article_factors r prefs")
  case (Pair res out3)
  show ?thesis
  proof (cases res)
    case (Inl e)
    with Pair train_and_upload_artifacts_raise [OF b t] run show ?thesis
      by simp
  next
    case (Inr dv)
    obtain doc ver where dv: "dv = (doc, ver)"
      by (cases dv)
    note a = Pair [unfolded Inr dv]
    note art = build_model_artifacts_Inr [OF a]
    from train_and_upload_eq [OF b t a] run have d: "d = (store ev)\<lparr>stored := Some doc\<rparr>"
      by (simp split: option.splits)
    have lu: "length (userFactors doc) = length user_ids"
      using art(1) by (metis length_map)
    have la: "length (articleFactors doc) = length article_ids"
      using art(3) by (metis length_map)
    have "userId (userFactors doc ! i) = user_ids ! i" if "i < length user_ids" for i
      using that lu art(1) by (metis nth_map)
    moreover have "articleId (articleFactors doc ! j) = article_ids ! j"
      if "j < length article_ids" for j
      using that la art(3) by (metis nth_map)
    moreover note art(1,2,3,4) build_interaction_matrix_Some(3,4) [OF b]
    moreover have "stored d = Some doc"
      by (simp add: d)
    ultimately show ?thesis
      by blast
  qed
qed

theorem artifact_order_two_users_two_articles:
  "fst (build_interaction_matrix example_interactions []) =
     Some (\<lparr>df_values = [[2, 7], [2, 0]], df_index = [''u1'', ''u2''],
              df_columns = [''i1'', ''i2'']\<rparr>, [''u1'', ''u2''], [''i1'', ''i2''])
   \<and> fst (train_and_upload example_env example_interactions [] []) = Inr 0
   \<and> (case stored (fst (snd (train_and_upload example_env example_interactions [] []))) of
        None \<Rightarrow> False
      | Some doc \<Rightarrow>
          map userId (userFactors doc) = [''u1'', ''u2'']
          \<and> factors (userFactors doc ! 0) = [9] \<and> factors (userFactors doc ! 1) = [2]
          \<and> map articleId (articleFactors doc) = [''i1'', ''i2'']
          \<and> article_factors_of (articleFactors doc ! 0) = [4]
          \<and> article_factors_of (articleFactors doc ! 1) = [7])"
proof -
  let ?m = "\<lparr>df_values = [[2, 7], [2, 0]], df_index = [''u1'', ''u2''],
              df_columns = [''i1'', ''i2'']\<rparr>"
  have t: "train_svd_model (svd_fit example_env) ?m N_COMPONENTS =
      (Inr ([[9], [2]], [[4], [7]], 1), [Training_svd 10, Svd_trained 1])"
    using example_training by (simp add: example_env_def)
  obtain doc out3 where a: "build_model_artifacts (now example_env) [''u1'', ''u2''] [''i1'', ''i2'']
      [[9], [2]] [[4], [7]] 1 [] = (Inr (doc, ''v20240101_120000''), out3)"
    using example_artifacts [of "[]"] by (auto simp: example_env_def)
  obtain d out where run: "train_and_upload example_env example_interactions [] [] = (Inr 0, d, out)"
    unfolding train_and_upload_eq [OF example_matrix t a] by (simp add: example_env_def)
  from artifact_factors_follow_matrix_order [OF example_matrix t run]
  show ?thesis
    unfolding run by (auto simp: example_matrix All_less_Suc)
qed

text \<open>
  C7. Let the fetches succeed. If fewer than 2 distinct users occur among the interaction
  events, or there are fewer than 3 interaction events, \<open>main\<close> returns exit code 0,
  leaves the store as it was, and prints nothing but the banner and the skip lines: no
  matrix is built, nothing is trained, nothing is published. If both thresholds are met,
  the run continues with the matrix builder; and a run that reaches the matrix builder has
  met both thresholds.
\<close>

theorem gate_skips_training:
  assumes "fetched ev = Inr (interactions, preferences, bookmarks)"
  shows "(card (set (map user_id interactions)) < 2 \<or> length interactions < 3 \<longrightarrow>
        fst (main ev) = 0 \<and> fst (snd (main ev)) = store ev
        \<and> Skipping \<in> set (snd (snd (main ev)))
        \<and> set (snd (snd (main ev))) \<subseteq>
            {Banner, Title, Blank, Skipping,
             Not_enough_users (card (set (map user_id interactions))),
             Not_enough_interactions (length interactions)})
    \<and> (2 \<le> card (set (map user_id interactions)) \<and> 3 \<le> length interactions \<longrightarrow>
        main_try ev = train_and_upload ev interactions preferences bookmarks
        \<and> Building_matrix \<in> set (snd (snd (main ev))))
    \<and> (Building_matrix \<in> set (snd (snd (main ev))) \<longrightarrow>
        2 \<le> card (set (map user_id interactions)) \<and> 3 \<le> length interactions)"
proof -
  note g = main_try_gate [OF assms]
  have skip: "fst (main ev) = 0 \<and> fst (snd (main ev)) = store ev
        \<and> Skipping \<in> set (snd (snd (main ev)))
        \<and> set (snd (snd (main ev))) \<subseteq>
            {Banner, Title, Blank, Skipping,
             Not_enough_users (card (set (map user_id interactions))),
             Not_enough_interactions (length interactions)}"
    if "card (set (map user_id interactions)) < 2 \<or> length interactions < 3"
    using that g by (auto simp: main_def)
  have go: "main_try ev = train_and_upload ev interactions preferences bookmarks
        \<and> Building_matrix \<in> set (snd (snd (main ev)))"
    if h: "2 \<le> card (set (map user_id interactions)) \<and> 3 \<le> length interactions"
  proof -
    from h g have e: "main_try ev = train_and_upload ev interactions preferences bookmarks"
      by simp
    obtain res d out where r: "train_and_upload ev interactions preferences bookmarks = (res, d, out)"
      by (cases "train_and_upload ev interactions preferences bookmarks")
    have "Building_matrix \<in> set out"
      using train_and_upload_starts_building [of ev interactions preferences bookmarks]
      by (simp add: r)
    then have "Building_matrix \<in> set (snd (snd (main ev)))"
      using main_of_main_try [OF e [unfolded r]] by (cases res) simp_all
    with e show ?thesis by simp
  qed
  have "2 \<le> card (set (map user_id interactions)) \<and> 3 \<le> length interactions"
    if "Building_matrix \<in> set (snd (snd (main ev)))"
  proof (rule ccontr)
    assume "\<not> ?thesis"
    then have "card (set (map user_id interactions)) < 2 \<or> length interactions < 3"
      by linarith
    from skip [OF this] that show False
      by auto
  qed
  with skip go show ?thesis
    by blast
qed

theorem single_user_run_is_skipped:
  "card (set (map user_id single_user_interactions)) < 2
   \<and> length single_user_interactions = 5
   \<and> fst (main (example_env\<lparr>fetched := Inr (single_user_interactions, [], [])\<rparr>)) = 0
   \<and> fst (snd (main (example_env\<lparr>fetched := Inr (single_user_interactions, [], [])\<rparr>)))
       = \<lparr>stored = None, set_raises = None\<rparr>
   \<and> Skipping \<in> set (snd (snd (main (example_env\<lparr>fetched := Inr (single_user_interactions, [], [])\<rparr>))))
   \<and> 2 \<le> card (set (map user_id example_interactions))
   \<and> 3 \<le> length example_interactions
   \<and> Building_matrix \<in> set (snd (snd (main example_env)))"
proof -
  let ?ev = "example_env\<lparr>fetched := Inr (single_user_interactions, [], [])\<rparr>"
  have f: "fetched ?ev = Inr (single_user_interactions, [], [])"
    by simp
  have c: "card (set (map user_id single_user_interactions)) < 2"
    "length single_user_interactions = 5"
    by (simp_all add: single_user_interactions_def)
  have f2: "fetched example_env = Inr (example_interactions, [], [])"
    by (simp add: example_env_def)
  have c2: "2 \<le> card (set (map user_id example_interactions))" "3 \<le> length example_interactions"
    by (simp_all add: example_interactions_def)
  have st: "store ?ev = \<lparr>stored = None, set_raises = None\<rparr>"
    by (simp add: example_env_def)
  from gate_skips_training [OF f] c(1) gate_skips_training [OF f2] c2 c st
  show ?thesis
    by simp
qed

text \<open>
  C8. When the merged score map is empty at the point where the matrix is built (which
  means there is no interaction event and no bookmark event), the matrix builder returns
  the null result, and the code of \<open>main\<close> from the matrix build on returns 1
  with the store untouched, having printed only the builder's two lines and the failure
  line: neither the factorization nor the upload runs. (Behind the gate of \<open>main\<close>
  there are at least 3 interaction events, so the score map is not empty there.)
\<close>

theorem empty_scores_fail_matrix_build:
  assumes "build_scores interactions bookmarks = []"
  shows "interactions = [] \<and> bookmarks = []
    \<and> build_interaction_matrix interactions bookmarks =
        (None, [Building_matrix, No_interaction_data])
    \<and> train_and_upload ev interactions preferences bookmarks =
        (Inr 1, store ev, [Building_matrix, No_interaction_data, Failed_to_build_matrix])"
proof -
  have "fst ` set (build_scores interactions bookmarks) = {}"
    by (simp add: assms)
  then have e: "interactions = []" "bookmarks = []"
    unfolding keys_build_scores by simp_all
  have b: "build_interaction_matrix interactions bookmarks =
      (None, [Building_matrix, No_interaction_data])"
    by (simp add: build_interaction_matrix_def assms)
  from train_and_upload_no_matrix [OF b] e b show ?thesis
    by simp
qed

theorem empty_events_fail_matrix_build:
  "build_scores [] [] = []
   \<and> fst (build_interaction_matrix [] []) = None
   \<and> train_and_upload example_env [] [] [] =
       (Inr 1, \<lparr>stored = None, set_raises = None\<rparr>,
        [Building_matrix, No_interaction_data, Failed_to_build_matrix])"
proof -
  have e: "build_scores [] [] = []"
    by (simp add: build_scores_def)
  have "store example_env = \<lparr>stored = None, set_raises = None\<rparr>"
    by (simp add: example_env_def)
  with empty_scores_fail_matrix_build [OF e, of example_env "[]"] e show ?thesis
    by simp
qed

text \<open>
  C10. The upload step never returns the failure value: it returns \<open>True\<close> or
  raises. So no run of \<open>main\<close> prints the "Failed to upload model" line, and a
  run that reached the upload and did not exit with 0 exited with 1 through the exception
  handler: the write raised, the store is unchanged, and the last line printed is the
  handler's, carrying that exception.
\<close>

theorem upload_never_reports_failure:
  "fst (upload_model_to_firestore d doc ver) \<noteq> Inr False
   \<and> Failed_to_upload \<notin> set (snd (snd (main ev)))
   \<and> (Uploading v \<in> set (snd (snd (main ev))) \<and> fst (main ev) \<noteq> 0 \<longrightarrow>
        fst (main ev) = 1 \<and> fst (snd (main ev)) = store ev
        \<and> (\<exists>e. set_raises (store ev) = Some e
              \<and> last (snd (snd (main ev))) = Training_failed e))"
proof (intro conjI impI)
  show "fst (upload_model_to_firestore d doc ver) \<noteq> Inr False"
    by (simp add: upload_model_to_firestore_def split: option.splits)
  obtain res d' out where mt: "main_try ev = (res, d', out)"
    by (cases "main_try ev")
  note m = main_of_main_try [OF mt]
  note u = main_try_upload_line [OF mt, of v]
  show "Failed_to_upload \<notin> set (snd (snd (main ev)))"
    using u by (cases res) (simp_all add: m)
  assume h: "Uploading v \<in> set (snd (snd (main ev))) \<and> fst (main ev) \<noteq> 0"
  then have "Uploading v \<in> set out"
    by (cases res) (simp_all add: m)
  with u h obtain e where "res = Inl e" "set_raises (store ev) = Some e" "d' = store ev"
    by (cases res) (auto simp: m)
  then show "fst (main ev) = 1" "fst (snd (main ev)) = store ev"
    "\<exists>e. set_raises (store ev) = Some e \<and> last (snd (snd (main ev))) = Training_failed e"
    by (simp_all add: m)
qed

theorem upload_failure_surfaces_as_exception:
  "Uploading ''v20240101_120000'' \<in> set (snd (snd (main (example_env\<lparr>store := failing_store\<rparr>))))
   \<and> fst (main (example_env\<lparr>store := failing_store\<rparr>)) = 1
   \<and> fst (snd (main (example_env\<lparr>store := failing_store\<rparr>))) = failing_store
   \<and> last (snd (snd (main (example_env\<lparr>store := failing_store\<rparr>))))
       = Training_failed (Raised ''write refused'')"
proof -
  let ?ev = "example_env\<lparr>store := failing_store\<rparr>"
  have h: "Uploading ''v20240101_120000'' \<in> set (snd (snd (main ?ev))) \<and> fst (main ?ev) \<noteq> 0"
    by (simp add: run_defs)
  have s: "store ?ev = failing_store" "set_raises failing_store = Some (Raised ''write refused'')"
    by (simp_all add: failing_store_def)
  from upload_never_reports_failure [of _ _ _ ?ev "''v20240101_120000''"] h
  have "fst (main ?ev) = 1 \<and> fst (snd (main ?ev)) = store ?ev
        \<and> (\<exists>e. set_raises (store ?ev) = Some e
              \<and> last (snd (snd (main ?ev))) = Training_failed e)"
    by blast
  with h show ?thesis
    unfolding s by auto
qed

end
